theory Spec2Isabelle
  imports Complex_Main "HOL-Library.Mapping" "HOL-Library.AList_Mapping" "HOL-Library.Multiset"
begin

section \<open>Status aggregation and history tracking of squad.core.models\<close>

text \<open>
  The development follows \<^verbatim>\<open>squad/core/models.py\<close>. Model instances are the objects
  the ORM hands to the code: a foreign key that the code dereferences
  (\<^verbatim>\<open>test.test_run.environment.slug\<close>) is a nested value, a nullable one is an
  \<open>option\<close>, and a manager (\<^verbatim>\<open>project.builds\<close>, \<^verbatim>\<open>run.tests\<close>) is a query over the
  table of the related model. Instances compare by primary key, as Django's
  \<^verbatim>\<open>Model.__eq__\<close> does. A timestamp is a number of microseconds, counted from the
  first instant a \<^verbatim>\<open>datetime\<close> can hold.
\<close>

subsection \<open>Exceptions\<close>

datatype error =
  ZeroDivisionError
  | JSONDecodeError
  | AttributeError
  | OverflowError

subsection \<open>Status\<close>

text \<open>
  \<^verbatim>\<open>tests_pass\<close> and \<^verbatim>\<open>tests_fail\<close> are \<^verbatim>\<open>IntegerField\<close>s, so they are integers here.
  A percentage is a Python \<^verbatim>\<open>float\<close>; the model computes over the reals, so the rounding
  of the two floating-point operations is outside it. \<^verbatim>\<open>float(a) / float(b)\<close> raises
  \<^verbatim>\<open>ZeroDivisionError\<close> when \<^verbatim>\<open>b\<close> is zero.
\<close>

record Status =
  tests_pass :: int
  tests_fail :: int

definition total_tests :: "Status \<Rightarrow> int" where
  "total_tests s = tests_pass s + tests_fail s"

definition float_div :: "real \<Rightarrow> real \<Rightarrow> error + real" where
  "float_div a b = (if b = 0 then Inl ZeroDivisionError else Inr (a / b))"

definition pass_percentage :: "Status \<Rightarrow> error + real" where
  "pass_percentage s =
     (if tests_pass s > 0
      then (case float_div (real_of_int (tests_pass s)) (real_of_int (total_tests s)) of
              Inl e \<Rightarrow> Inl e
            | Inr q \<Rightarrow> Inr (100 * q))
      else Inr 0)"

definition fail_percentage :: "Status \<Rightarrow> error + real" where
  "fail_percentage s =
     (case pass_percentage s of
        Inl e \<Rightarrow> Inl e
      | Inr p \<Rightarrow> Inr (100 - p))"

definition has_tests :: "Status \<Rightarrow> bool" where
  "has_tests s \<longleftrightarrow> tests_pass s + tests_fail s > 0"

subsection \<open>Projects, builds and the tables\<close>

type_synonym datetime = int

record Project =
  project_id :: nat
  build_completion_threshold :: int

record Build =
  build_id :: nat
  build_project :: Project
  build_name :: string
  build_version :: string
  build_datetime :: datetime

record Environment =
  environment_id :: nat
  environment_slug :: string

record Suite =
  suite_id :: nat
  suite_slug :: string

record TestRun =
  test_run_id :: nat
  test_run_build :: Build
  test_run_environment :: Environment
  metadata_file :: "string option"

record Test =
  test_id :: nat
  test_test_run :: TestRun
  test_suite :: Suite
  test_name :: string
  test_result :: "bool option"

datatype ProjectStatus =
  ProjectStatus (ps_id: nat) (ps_build: "Build option") (ps_previous: "ProjectStatus option")

text \<open>The tables, each in the order of its primary key.\<close>

record DB =
  db_builds :: "Build list"
  db_test_runs :: "TestRun list"
  db_tests :: "Test list"
  db_project_statuses :: "ProjectStatus list"

text \<open>
  \<^verbatim>\<open>QuerySet.last()\<close> reverses the ordering of the query and takes the first row
  (\<^verbatim>\<open>self.reverse()[:1]\<close>, and \<^verbatim>\<open>order_by('-pk')[:1]\<close> on a query without an ordering);
  the result is \<^verbatim>\<open>None\<close> when the query has no row. The database leaves the order of rows
  with equal keys open; the model keeps them in table order, in whichever direction the
  query sorts.
\<close>

definition queryset_last :: "('a \<Rightarrow> int) \<Rightarrow> 'a list \<Rightarrow> 'a option" where
  "queryset_last key rows =
     (case sort_key (\<lambda>r. - key r) rows of
        [] \<Rightarrow> None
      | r # _ \<Rightarrow> Some r)"

text \<open>
  \<^verbatim>\<open>project.builds\<close>, in the default ordering of \<^verbatim>\<open>Build\<close> (\<^verbatim>\<open>ordering = ['datetime']\<close>).
  The database leaves the order of rows with equal keys open; the model keeps them in
  table order (a stable sort).
\<close>

definition project_builds :: "DB \<Rightarrow> Project \<Rightarrow> Build list" where
  "project_builds db project =
     sort_key build_datetime
       (filter (\<lambda>b. project_id (build_project b) = project_id project) (db_builds db))"

definition build_test_runs :: "DB \<Rightarrow> Build \<Rightarrow> TestRun list" where
  "build_test_runs db build =
     filter (\<lambda>r. build_id (test_run_build r) = build_id build) (db_test_runs db)"

definition test_run_tests :: "DB \<Rightarrow> TestRun \<Rightarrow> Test list" where
  "test_run_tests db run =
     filter (\<lambda>t. test_run_id (test_test_run t) = test_run_id run) (db_tests db)"

subsection \<open>Build.save\<close>

text \<open>
  The fields of a \<^verbatim>\<open>Build\<close> instance that \<^verbatim>\<open>save\<close> reads and writes, before the row is
  stored: each may still be unset. A string is true when it is set and not empty.
  \<^verbatim>\<open>re.sub(pattern, repl, s)\<close> is modelled for a pattern without metacharacters, as
  \<^verbatim>\<open>'-rc'\<close> is: every occurrence, leftmost first and not overlapping, is replaced.
\<close>

record BuildInstance =
  name :: "string option"
  version :: "string option"
  datetime :: "datetime option"

definition truthy :: "string option \<Rightarrow> bool" where
  "truthy s = (case s of None \<Rightarrow> False | Some x \<Rightarrow> x \<noteq> [])"

function re_sub :: "string \<Rightarrow> string \<Rightarrow> string \<Rightarrow> string" where
  "re_sub pat repl [] = []"
| "re_sub pat repl (c # cs) =
     (if pat \<noteq> [] \<and> take (length pat) (c # cs) = pat
      then repl @ re_sub pat repl (drop (length pat) (c # cs))
      else c # re_sub pat repl cs)"
  by pat_completeness auto
termination
  by (relation "measure (\<lambda>(pat, repl, s). length s)") auto

definition Build_save :: "datetime \<Rightarrow> BuildInstance \<Rightarrow> BuildInstance" where
  "Build_save now self =
     (let s1 = (if datetime self = None then self\<lparr>datetime := Some now\<rparr> else self);
          s2 = (if truthy (version s1) \<and> \<not> truthy (name s1)
                then s1\<lparr>name := version s1, version := None\<rparr> else s1);
          s3 = (if truthy (name s2) \<and> \<not> truthy (version s2)
                then s2\<lparr>version := map_option (re_sub ''-rc'' ''~rc'') (name s2)\<rparr> else s2)
      in s3)"

subsection \<open>Build.test_summary\<close>

text \<open>
  \<^verbatim>\<open>summary['failures']\<close> is an \<^verbatim>\<open>OrderedDict\<close>: an association list in insertion order,
  with one entry for each key.
\<close>

record Summary =
  summary_total :: int
  summary_pass :: int
  summary_fail :: int
  summary_missing :: int
  summary_failures :: "(string \<times> Test list) list"

definition count_result :: "Summary \<Rightarrow> bool option \<Rightarrow> Summary" where
  "count_result summary result =
     (case result of
        Some True \<Rightarrow> summary\<lparr>summary_pass := summary_pass summary + 1\<rparr>
      | Some False \<Rightarrow> summary\<lparr>summary_fail := summary_fail summary + 1\<rparr>
      | None \<Rightarrow> summary\<lparr>summary_missing := summary_missing summary + 1\<rparr>)"

definition failures_append :: "string \<Rightarrow> Test \<Rightarrow> (string \<times> Test list) list \<Rightarrow> (string \<times> Test list) list" where
  "failures_append env test failures =
     (let failures1 = (if env \<notin> set (map fst failures) then failures @ [(env, [])] else failures)
      in map (\<lambda>(k, ts). if k = env then (k, ts @ [test]) else (k, ts)) failures1)"

definition summary_test :: "Summary \<Rightarrow> Test \<Rightarrow> Summary" where
  "summary_test summary test =
     (let s1 = count_result summary (test_result test);
          s2 = s1\<lparr>summary_total := summary_total s1 + 1\<rparr>
      in if test_result test = Some False
         then s2\<lparr>summary_failures :=
                   failures_append (environment_slug (test_run_environment (test_test_run test)))
                     test (summary_failures s2)\<rparr>
         else s2)"

definition summary_run :: "DB \<Rightarrow> Summary \<Rightarrow> TestRun \<Rightarrow> Summary" where
  "summary_run db summary run = foldl summary_test summary (test_run_tests db run)"

definition test_summary :: "DB \<Rightarrow> Build \<Rightarrow> Summary" where
  "test_summary db self =
     foldl (summary_run db)
       \<lparr>summary_total = 0, summary_pass = 0, summary_fail = 0, summary_missing = 0,
        summary_failures = []\<rparr>
       (build_test_runs db self)"

subsection \<open>TestRun.metadata and Build.metadata\<close>

text \<open>
  A metadata dictionary maps keys to JSON values; the type of the values is left open and
  they compare by equality. \<^verbatim>\<open>json.loads\<close> belongs to the Python library: it is the
  parameter \<open>loads\<close>, which returns the decoded dictionary or raises. A text whose JSON
  value is not an object is outside the model.
\<close>

type_synonym 'v dict = "(string, 'v) mapping"

definition dict_intersection :: "'v dict \<Rightarrow> 'v dict \<Rightarrow> 'v dict" where
  "dict_intersection d1 d2 = Mapping.filter (\<lambda>k v. Mapping.lookup d2 k = Some v) d1"

definition TestRun_metadata :: "(string \<Rightarrow> error + 'v dict) \<Rightarrow> TestRun \<Rightarrow> error + 'v dict" where
  "TestRun_metadata loads self =
     (if truthy (metadata_file self)
      then (case metadata_file self of Some text \<Rightarrow> loads text | None \<Rightarrow> Inr Mapping.empty)
      else Inr Mapping.empty)"

fun metadata_loop :: "(string \<Rightarrow> error + 'v dict) \<Rightarrow> 'v dict \<Rightarrow> TestRun list \<Rightarrow> error + 'v dict" where
  "metadata_loop loads metadata [] = Inr metadata"
| "metadata_loop loads metadata (test_run # rest) =
     (if \<not> Mapping.is_empty metadata
      then (case TestRun_metadata loads test_run of
              Inl e \<Rightarrow> Inl e
            | Inr m \<Rightarrow> metadata_loop loads (dict_intersection metadata m) rest)
      else (case TestRun_metadata loads test_run of
              Inl e \<Rightarrow> Inl e
            | Inr m \<Rightarrow> metadata_loop loads m rest))"

definition Build_metadata :: "(string \<Rightarrow> error + 'v dict) \<Rightarrow> DB \<Rightarrow> Build \<Rightarrow> error + 'v dict" where
  "Build_metadata loads db self = metadata_loop loads Mapping.empty (build_test_runs db self)"

subsection \<open>Test.history\<close>

text \<open>
  The query of \<^verbatim>\<open>history\<close>: the rows of the same suite, name and environment (foreign keys
  compare by primary key) whose build is strictly earlier, the test itself left out,
  most recent build first. Rows of equal build time stay in table order.
\<close>

record History =
  history_since :: "Test option"
  history_count :: int
  history_last_different :: "Test option"

definition test_build_datetime :: "Test \<Rightarrow> datetime" where
  "test_build_datetime t = build_datetime (test_run_build (test_test_run t))"

definition previous_tests :: "DB \<Rightarrow> Test \<Rightarrow> Test list" where
  "previous_tests db self =
     sort_key (\<lambda>t. - test_build_datetime t)
       (filter (\<lambda>t. test_id t \<noteq> test_id self)
         (filter (\<lambda>t. suite_id (test_suite t) = suite_id (test_suite self)
                    \<and> test_name t = test_name self
                    \<and> test_build_datetime t < test_build_datetime self
                    \<and> environment_id (test_run_environment (test_test_run t))
                        = environment_id (test_run_environment (test_test_run self)))
           (db_tests db)))"

fun history_loop :: "Test \<Rightarrow> Test option \<Rightarrow> int \<Rightarrow> Test list \<Rightarrow> History" where
  "history_loop self since n [] =
     \<lparr>history_since = since, history_count = n, history_last_different = None\<rparr>"
| "history_loop self since n (test # rest) =
     (if test_result test = test_result self
      then history_loop self (Some test) (n + 1) rest
      else \<lparr>history_since = since, history_count = n,
            history_last_different = Some test\<rparr>)"

text \<open>
  \<^verbatim>\<open>__history__\<close> is the cache of the instance: \<open>None\<close> until the first read. The
  property returns the history and leaves it in the cache.
\<close>

definition Test_history :: "DB \<Rightarrow> Test \<Rightarrow> History option \<Rightarrow> History \<times> History option" where
  "Test_history db self cache =
     (case cache of
        Some h \<Rightarrow> (h, cache)
      | None \<Rightarrow>
          (let h = history_loop self None 0 (previous_tests db self)
           in (h, Some h)))"

subsection \<open>ProjectStatus\<close>

text \<open>
  \<^verbatim>\<open>relativedelta(minutes=n)\<close> is \<open>n\<close> minutes, in microseconds. Subtracting it from a
  \<^verbatim>\<open>datetime\<close> raises \<^verbatim>\<open>OverflowError\<close> when the result lies outside the years 1 to 9999,
  that is outside the 3652059 days a \<^verbatim>\<open>datetime\<close> can hold.
\<close>

definition minutes :: "int \<Rightarrow> int" where
  "minutes n = n * 60000000"

definition datetime_max :: datetime where
  "datetime_max = 3652059 * 86400000000 - 1"

definition datetime_sub :: "datetime \<Rightarrow> int \<Rightarrow> error + datetime" where
  "datetime_sub t delta =
     (if t - delta < 0 \<or> datetime_max < t - delta then Inl OverflowError else Inr (t - delta))"

text \<open>
  \<^verbatim>\<open>cls.objects.filter(build__project=project)\<close>: the checkpoints that have a build, of
  this project. The query has no ordering, so \<^verbatim>\<open>last()\<close> reads it by primary key.
\<close>

definition project_checkpoints :: "DB \<Rightarrow> Project \<Rightarrow> ProjectStatus list" where
  "project_checkpoints db project =
     filter (\<lambda>c. case ps_build c of
                    None \<Rightarrow> False
                  | Some b \<Rightarrow> project_id (build_project b) = project_id project)
       (db_project_statuses db)"

definition previous_checkpoint :: "DB \<Rightarrow> Project \<Rightarrow> ProjectStatus option" where
  "previous_checkpoint db project =
     queryset_last (\<lambda>c. int (ps_id c)) (project_checkpoints db project)"

text \<open>\<^verbatim>\<open>objects.create\<close> gives the new row a key above every key of the table.\<close>

definition next_pk :: "ProjectStatus list \<Rightarrow> nat" where
  "next_pk rows = Suc (fold max (map ps_id rows) 0)"

text \<open>The first four lines of \<^verbatim>\<open>create\<close>: the build it considers, or the error.\<close>

definition candidate_build :: "datetime \<Rightarrow> DB \<Rightarrow> Project \<Rightarrow> error + Build option" where
  "candidate_build now db project =
     (let completion_window = minutes (build_completion_threshold project)
      in case datetime_sub now completion_window of
           Inl e \<Rightarrow> Inl e
         | Inr completed_by \<Rightarrow>
             (let builds = filter (\<lambda>b. build_datetime b < completed_by) (project_builds db project)
              in Inr (queryset_last build_datetime builds)))"

text \<open>\<^verbatim>\<open>previous.build != build\<close> compares primary keys; a null build differs from any.\<close>

definition build_differs :: "ProjectStatus \<Rightarrow> Build \<Rightarrow> bool" where
  "build_differs previous build =
     (case ps_build previous of
        None \<Rightarrow> True
      | Some pb \<Rightarrow> build_id pb \<noteq> build_id build)"

definition ProjectStatus_create :: "datetime \<Rightarrow> DB \<Rightarrow> Project \<Rightarrow> error + DB \<times> ProjectStatus option" where
  "ProjectStatus_create now db project =
     (case candidate_build now db project of
        Inl e \<Rightarrow> Inl e
      | Inr build \<Rightarrow>
          (let previous = previous_checkpoint db project
           in case build of
                None \<Rightarrow> Inr (db, None)
              | Some b \<Rightarrow>
                  if (case previous of None \<Rightarrow> True | Some p \<Rightarrow> build_differs p b)
                  then (let c = ProjectStatus (next_pk (db_project_statuses db)) (Some b) previous
                        in Inr (db\<lparr>db_project_statuses := db_project_statuses db @ [c]\<rparr>, Some c))
                  else Inr (db, None)))"

text \<open>
  \<^verbatim>\<open>builds\<close> reads \<^verbatim>\<open>self.build.project\<close> and \<^verbatim>\<open>previous.datetime\<close>: on a checkpoint
  whose build, or whose previous checkpoint's build, is null the attribute access raises.
\<close>

definition ProjectStatus_builds :: "DB \<Rightarrow> ProjectStatus \<Rightarrow> error + Build list" where
  "ProjectStatus_builds db self =
     (case ps_previous self of
        None \<Rightarrow>
          (case ps_build self of
             None \<Rightarrow> Inl AttributeError
           | Some b \<Rightarrow> Inr (project_builds db (build_project b)))
      | Some prev \<Rightarrow>
          (case ps_build self of
             None \<Rightarrow> Inl AttributeError
           | Some b \<Rightarrow>
               (case ps_build prev of
                  None \<Rightarrow> Inl AttributeError
                | Some previous \<Rightarrow>
                    Inr (sort_key build_datetime
                          (filter (\<lambda>x. build_datetime previous < build_datetime x
                                       \<and> build_datetime x \<le> build_datetime b)
                             (project_builds db (build_project b)))))))"

section \<open>Vocabulary of the properties\<close>

subsection \<open>Test summary\<close>

text \<open>
  The tests of a build in the order \<^verbatim>\<open>test_summary\<close> visits them, the environment slug
  under which a failure is filed, and the keys of a sequence in the order of their first
  occurrence.
\<close>

definition build_tests :: "DB \<Rightarrow> Build \<Rightarrow> Test list" where
  "build_tests db build = concat (map (test_run_tests db) (build_test_runs db build))"

definition test_env :: "Test \<Rightarrow> string" where
  "test_env t = environment_slug (test_run_environment (test_test_run t))"

definition failed :: "Test \<Rightarrow> bool" where
  "failed t \<longleftrightarrow> test_result t = Some False"

definition first_seen :: "'a list \<Rightarrow> 'a list" where
  "first_seen xs = rev (remdups (rev xs))"

text \<open>What a summary is after the tests \<open>ts\<close> have been visited.\<close>

definition summary_of :: "Test list \<Rightarrow> Summary \<Rightarrow> bool" where
  "summary_of ts s \<longleftrightarrow>
     summary_total s = int (length ts)
     \<and> summary_pass s = int (length (filter (\<lambda>t. test_result t = Some True) ts))
     \<and> summary_fail s = int (length (filter (\<lambda>t. test_result t = Some False) ts))
     \<and> summary_missing s = int (length (filter (\<lambda>t. test_result t = None) ts))
     \<and> map fst (summary_failures s) = first_seen (map test_env (filter failed ts))
     \<and> (\<forall>env. map_of (summary_failures s) env =
           (if env \<in> set (map test_env (filter failed ts))
            then Some (filter (\<lambda>t. failed t \<and> test_env t = env) ts) else None))"

subsection \<open>History\<close>

definition same_result :: "Test \<Rightarrow> Test \<Rightarrow> bool" where
  "same_result self t \<longleftrightarrow> test_result t = test_result self"

definition is_previous :: "Test \<Rightarrow> Test \<Rightarrow> bool" where
  "is_previous self t \<longleftrightarrow>
     suite_id (test_suite t) = suite_id (test_suite self)
     \<and> test_name t = test_name self
     \<and> environment_id (test_run_environment (test_test_run t))
         = environment_id (test_run_environment (test_test_run self))
     \<and> test_build_datetime t < test_build_datetime self
     \<and> test_id t \<noteq> test_id self"

subsection \<open>Build versions\<close>

text \<open>
  \<open>v\<close> is \<open>n\<close> with \<^verbatim>\<open>-rc\<close> rewritten to \<^verbatim>\<open>~rc\<close>: the same length, a tilde wherever an
  occurrence of \<^verbatim>\<open>-rc\<close> starts and the character of \<open>n\<close> everywhere else.
\<close>

definition rc_rewritten :: "string \<Rightarrow> string \<Rightarrow> bool" where
  "rc_rewritten n v \<longleftrightarrow>
     length v = length n
     \<and> (\<forall>i < length n. v ! i = (if take 3 (drop i n) = ''-rc'' then CHR ''~'' else n ! i))"

subsection \<open>Checkpoints\<close>

text \<open>
  A build of the project; a build of the project old enough at \<open>now\<close> to count as
  completed (the threshold is in minutes, the times in microseconds); a time that a
  \<^verbatim>\<open>datetime\<close> can hold; the most recent completed build; a checkpoint of the project; the
  latest checkpoint of the project.
\<close>

definition in_project :: "Project \<Rightarrow> Build \<Rightarrow> bool" where
  "in_project project b \<longleftrightarrow> project_id (build_project b) = project_id project"

definition completed :: "datetime \<Rightarrow> Project \<Rightarrow> Build \<Rightarrow> bool" where
  "completed now project b \<longleftrightarrow>
     in_project project b
     \<and> build_datetime b < now - build_completion_threshold project * 60000000"

definition is_datetime :: "int \<Rightarrow> bool" where
  "is_datetime t \<longleftrightarrow> 0 \<le> t \<and> t \<le> 315537897599999999"

definition is_candidate :: "datetime \<Rightarrow> DB \<Rightarrow> Project \<Rightarrow> Build \<Rightarrow> bool" where
  "is_candidate now db project b \<longleftrightarrow>
     b \<in> set (db_builds db) \<and> completed now project b
     \<and> (\<forall>x \<in> set (db_builds db). completed now project x \<longrightarrow> build_datetime x \<le> build_datetime b)"

definition checkpoint_of :: "Project \<Rightarrow> ProjectStatus \<Rightarrow> bool" where
  "checkpoint_of project c \<longleftrightarrow>
     (case ps_build c of None \<Rightarrow> False | Some b \<Rightarrow> in_project project b)"

definition is_latest_checkpoint :: "DB \<Rightarrow> Project \<Rightarrow> ProjectStatus \<Rightarrow> bool" where
  "is_latest_checkpoint db project p \<longleftrightarrow>
     p \<in> set (db_project_statuses db) \<and> checkpoint_of project p
     \<and> (\<forall>c \<in> set (db_project_statuses db). checkpoint_of project c \<longrightarrow> ps_id c \<le> ps_id p)"

section \<open>Example data\<close>

definition example_project :: Project where
  "example_project = \<lparr>project_id = 1, build_completion_threshold = 120\<rparr>"

definition example_build :: "nat \<Rightarrow> datetime \<Rightarrow> Build" where
  "example_build i t =
     \<lparr>build_id = i, build_project = example_project, build_name = [], build_version = [],
      build_datetime = t\<rparr>"

definition example_env :: Environment where
  "example_env = \<lparr>environment_id = 1, environment_slug = ''env''\<rparr>"

definition example_suite :: Suite where
  "example_suite = \<lparr>suite_id = 1, suite_slug = ''tests''\<rparr>"

definition example_run :: "nat \<Rightarrow> Build \<Rightarrow> string option \<Rightarrow> TestRun" where
  "example_run i b text =
     \<lparr>test_run_id = i, test_run_build = b, test_run_environment = example_env,
      metadata_file = text\<rparr>"

definition example_test :: "nat \<Rightarrow> TestRun \<Rightarrow> string \<Rightarrow> bool option \<Rightarrow> Test" where
  "example_test i run nm r =
     \<lparr>test_id = i, test_test_run = run, test_suite = example_suite, test_name = nm,
      test_result = r\<rparr>"

text \<open>Six builds ten time units apart, one test \<^verbatim>\<open>foo\<close> in each, and a test \<^verbatim>\<open>bar\<close>.\<close>

definition history_test :: "nat \<Rightarrow> bool option \<Rightarrow> Test" where
  "history_test i r =
     example_test i (example_run i (example_build i (10 * int i)) None) ''foo'' r"

definition history_db :: DB where
  "history_db =
     \<lparr>db_builds = [], db_test_runs = [],
      db_tests =
        [history_test 1 (Some True), history_test 2 (Some False), history_test 3 (Some True),
         example_test 7 (example_run 4 (example_build 4 40) None) ''bar'' (Some False),
         history_test 4 (Some True), history_test 5 (Some True), history_test 6 (Some True)],
      db_project_statuses = []\<rparr>"

text \<open>The build of \<^verbatim>\<open>test_test_summary\<close> in \<^verbatim>\<open>test/core/test_build.py\<close>, beside a second build.\<close>

definition summary_run1 :: TestRun where
  "summary_run1 = example_run 1 (example_build 1 10) None"

definition summary_db :: DB where
  "summary_db =
     \<lparr>db_builds = [example_build 1 10, example_build 2 20],
      db_test_runs = [summary_run1, example_run 2 (example_build 2 20) None],
      db_tests =
        [example_test 1 summary_run1 ''foo'' (Some True),
         example_test 2 summary_run1 ''bar'' (Some False),
         example_test 3 (example_run 2 (example_build 2 20) None) ''foo'' (Some False),
         example_test 4 summary_run1 ''baz'' None,
         example_test 5 summary_run1 ''qux'' (Some False)],
      db_project_statuses = []\<rparr>"

text \<open>
  Builds of the project at times 10 to 40 with a build of another project between them;
  a first checkpoint at build 1 and a second at build 3.
\<close>

definition checkpoint_db :: DB where
  "checkpoint_db =
     \<lparr>db_builds =
        [example_build 3 30, example_build 1 10,
         (example_build 4 25)\<lparr>build_project := \<lparr>project_id = 2, build_completion_threshold = 120\<rparr>\<rparr>,
         example_build 2 20, example_build 5 40],
      db_test_runs = [], db_tests = [], db_project_statuses = []\<rparr>"

definition checkpoint1 :: ProjectStatus where
  "checkpoint1 = ProjectStatus 1 (Some (example_build 1 10)) None"

definition checkpoint3 :: ProjectStatus where
  "checkpoint3 = ProjectStatus 2 (Some (example_build 3 30)) (Some checkpoint1)"

text \<open>
  A project with a threshold of 120 minutes, a build at minute 800 and a build at minute
  990, for calls at minutes 1000 and 1001; and two builds both at minute 800.
\<close>

definition create_db :: DB where
  "create_db =
     \<lparr>db_builds = [example_build 1 48000000000, example_build 2 59400000000],
      db_test_runs = [], db_tests = [], db_project_statuses = []\<rparr>"

definition tie_db :: DB where
  "tie_db =
     \<lparr>db_builds = [example_build 1 48000000000, example_build 2 48000000000],
      db_test_runs = [], db_tests = [], db_project_statuses = []\<rparr>"

text \<open>
  The values of \<^verbatim>\<open>json.loads\<close> on the metadata texts of the examples: three objects
  with one key each, and the malformed text of a single brace. The examples read the
  decoder at these texts only.
\<close>

definition example_loads :: "string \<Rightarrow> error + string dict" where
  \<open>example_loads text =
     (if text = ''{"a": "1"}'' then Inr (Mapping.update ''a'' ''1'' Mapping.empty)
      else if text = ''{"b": "2"}'' then Inr (Mapping.update ''b'' ''2'' Mapping.empty)
      else if text = ''{"c": "3"}'' then Inr (Mapping.update ''c'' ''3'' Mapping.empty)
      else Inl JSONDecodeError)\<close>

definition metadata_run :: "nat \<Rightarrow> string option \<Rightarrow> TestRun" where
  "metadata_run i text = example_run i (example_build 1 10) text"

definition metadata_db :: "TestRun list \<Rightarrow> DB" where
  "metadata_db runs =
     \<lparr>db_builds = [example_build 1 10], db_test_runs = runs, db_tests = [],
      db_project_statuses = []\<rparr>"

section \<open>Properties\<close>

subsection \<open>Status percentages\<close>

text \<open>
  Claim C7. The two fields of a Status count tests, so neither is negative. Then
  \<open>total_tests\<close> is their sum; \<open>pass_percentage\<close> is 0 when \<open>tests_pass\<close> is 0 and
  \<open>100 * tests_pass / total_tests\<close> otherwise; \<open>fail_percentage\<close> is 100 minus
  \<open>pass_percentage\<close>. With 0 passes and 5 failures the percentages are 0 and 100; with 3
  passes and 1 failure \<open>pass_percentage\<close> is 75.
\<close>

theorem status_percentages:
  assumes "0 \<le> tests_pass s" and "0 \<le> tests_fail s"
  shows "total_tests s = tests_pass s + tests_fail s
       \<and> (tests_pass s = 0 \<longrightarrow> pass_percentage s = Inr 0)
       \<and> (tests_pass s \<noteq> 0 \<longrightarrow>
            pass_percentage s = Inr (100 * real_of_int (tests_pass s) / real_of_int (total_tests s)))
       \<and> (\<exists>p. pass_percentage s = Inr p \<and> fail_percentage s = Inr (100 - p))
       \<and> pass_percentage \<lparr>tests_pass = 0, tests_fail = 5\<rparr> = Inr 0
       \<and> fail_percentage \<lparr>tests_pass = 0, tests_fail = 5\<rparr> = Inr 100
       \<and> pass_percentage \<lparr>tests_pass = 3, tests_fail = 1\<rparr> = Inr 75"
  using assms
  by (auto simp: total_tests_def pass_percentage_def fail_percentage_def float_div_def)

theorem status_percentages_witness:
  "pass_percentage \<lparr>tests_pass = 1, tests_fail = 3\<rparr> = Inr 25
   \<and> fail_percentage \<lparr>tests_pass = 1, tests_fail = 3\<rparr> = Inr 75"
  using status_percentages [of "\<lparr>tests_pass = 1, tests_fail = 3\<rparr>"]
  by (auto simp: total_tests_def)

text \<open>
  Claim C10. For a Status whose count of failures is not negative, \<open>pass_percentage\<close>
  and \<open>fail_percentage\<close> add up to 100; a Status with no pass and no failure reports a
  \<open>fail_percentage\<close> of 100.
\<close>

theorem percentages_sum:
  assumes "0 \<le> tests_fail s"
  shows "(\<exists>p f. pass_percentage s = Inr p \<and> fail_percentage s = Inr f \<and> p + f = 100)
       \<and> (tests_pass s = 0 \<and> tests_fail s = 0 \<longrightarrow> fail_percentage s = Inr 100)"
  using assms
  by (auto simp: total_tests_def pass_percentage_def fail_percentage_def float_div_def)

theorem percentages_sum_witness:
  "(\<exists>p f. pass_percentage \<lparr>tests_pass = 0, tests_fail = 0\<rparr> = Inr p
         \<and> fail_percentage \<lparr>tests_pass = 0, tests_fail = 0\<rparr> = Inr f \<and> p + f = 100)
   \<and> fail_percentage \<lparr>tests_pass = 0, tests_fail = 0\<rparr> = Inr 100"
  using percentages_sum [of "\<lparr>tests_pass = 0, tests_fail = 0\<rparr>"]
  by auto

subsection \<open>Test.history\<close>

lemma history_loop_eq:
  "history_loop self since n prev =
     \<lparr>history_since =
        (if takeWhile (same_result self) prev = [] then since
         else Some (last (takeWhile (same_result self) prev))),
      history_count = n + int (length (takeWhile (same_result self) prev)),
      history_last_different =
        (case dropWhile (same_result self) prev of [] \<Rightarrow> None | t # _ \<Rightarrow> Some t)\<rparr>"
  by (induction prev arbitrary: since n) (simp_all add: same_result_def)

lemma previous_tests_mset:
  "mset (previous_tests db self) = filter_mset (is_previous self) (mset (db_tests db))"
  unfolding previous_tests_def is_previous_def
  by (simp add: conj_commute conj_left_commute cong: conj_cong) 

lemma previous_tests_sorted:
  "sorted (rev (map test_build_datetime (previous_tests db self)))"
proof -
  have "sorted (map (\<lambda>t. - test_build_datetime t) (previous_tests db self))"
    unfolding previous_tests_def by simp
  then show ?thesis
    by (simp add: sorted_wrt_rev sorted_wrt_map sorted_map)
qed

text \<open>
  Claim C4. The prior tests are exactly the rows of the same suite, name and environment
  with a strictly earlier build, the test itself left out, most recent build first. Over
  them, \<open>count\<close> is the length of the initial run of tests with the result of the current
  test, \<open>since\<close> is the last test of that run (absent when the run is empty) and
  \<open>last_different\<close> is the first test after it (absent when there is none).
\<close>

theorem history_walk:
  "mset (previous_tests db self) = filter_mset (is_previous self) (mset (db_tests db))
   \<and> sorted (rev (map test_build_datetime (previous_tests db self)))
   \<and> (let prior = previous_tests db self;
           streak = takeWhile (same_result self) prior;
           h = fst (Test_history db self None)
       in history_count h = int (length streak)
        \<and> history_since h = (if streak = [] then None else Some (last streak))
        \<and> history_last_different h =
            (case dropWhile (same_result self) prior of [] \<Rightarrow> None | t # _ \<Rightarrow> Some t))"
  by (simp add: previous_tests_mset previous_tests_sorted Test_history_def history_loop_eq Let_def)

lemma history_prior:
  "previous_tests history_db (history_test 6 (Some True)) =
     [history_test 5 (Some True), history_test 4 (Some True), history_test 3 (Some True),
      history_test 2 (Some False), history_test 1 (Some True)]"
  by (simp add: previous_tests_def history_db_def history_test_def example_test_def
      example_run_def example_build_def test_build_datetime_def example_env_def example_suite_def)

text \<open>
  The example of the claim: prior results pass, pass, pass, fail, pass (most recent
  first) and a current pass give a count of 3, \<open>since\<close> the third entry and
  \<open>last_different\<close> the failing entry.
\<close>

theorem history_walk_witness:
  "(let h = fst (Test_history history_db (history_test 6 (Some True)) None)
    in history_count h = 3
     \<and> history_since h = Some (history_test 3 (Some True))
     \<and> history_last_different h = Some (history_test 2 (Some False)))"
  using history_walk [of history_db "history_test 6 (Some True)"]
  unfolding history_prior
  by (simp add: same_result_def Let_def history_test_def example_test_def)

subsection \<open>Build.test_summary\<close>

lemma first_seen_snoc:
  "first_seen (xs @ [x]) = (if x \<in> set xs then first_seen xs else first_seen xs @ [x])"
  by (simp add: first_seen_def)

lemma set_first_seen: "set (first_seen xs) = set xs"
  by (simp add: first_seen_def)

lemma foldl_runs:
  "foldl (summary_run db) s runs = foldl summary_test s (concat (map (test_run_tests db) runs))"
  by (induction runs arbitrary: s) (simp_all add: summary_run_def)

lemma keys_failures_append:
  "map fst (failures_append env t fs) =
     (if env \<in> set (map fst fs) then map fst fs else map fst fs @ [env])"
  by (auto simp: failures_append_def Let_def split_def comp_def)

lemma map_of_failures_step:
  "map_of (map (\<lambda>(k, ts). if k = env then (k, ts @ [t]) else (k, ts)) fs) e =
     (if e = env then map_option (\<lambda>ts. ts @ [t]) (map_of fs e) else map_of fs e)"
  by (induction fs) auto

lemma map_of_failures_append:
  "map_of (failures_append env t fs) e =
     (if e = env
      then Some ((case map_of fs env of None \<Rightarrow> [] | Some ts \<Rightarrow> ts) @ [t])
      else map_of fs e)"
proof (cases "env \<in> set (map fst fs)")
  case True
  then obtain ts where "map_of fs env = Some ts"
    by (metis map_of_eq_None_iff not_None_eq set_map)
  with True show ?thesis
    by (simp add: failures_append_def map_of_failures_step)
next
  case False
  then have "map_of fs env = None"
    by (simp add: map_of_eq_None_iff)
  with False show ?thesis
    by (auto simp: failures_append_def map_of_failures_step map_add_def
        split: option.splits)
qed

lemma summary_of_step:
  assumes "summary_of ts s"
  shows "summary_of (ts @ [t]) (summary_test s t)"
proof (cases "test_result t")
  case None
  with assms show ?thesis
    by (simp add: summary_of_def summary_test_def count_result_def failed_def)
next
  case (Some r)
  show ?thesis
  proof (cases r)
    case True
    with Some assms show ?thesis
      by (simp add: summary_of_def summary_test_def count_result_def failed_def)
  next
    case False
    have keys: "set (map fst (summary_failures s)) = set (map test_env (filter failed ts))"
      using assms by (simp add: summary_of_def set_first_seen)
    from False Some assms keys show ?thesis
      by (auto simp: summary_of_def summary_test_def count_result_def Let_def
          test_env_def[symmetric] keys_failures_append first_seen_snoc map_of_failures_append
          failed_def filter_empty_conv empty_filter_conv image_iff)
  qed
qed

lemma summary_of_foldl:
  "summary_of ts s \<Longrightarrow> summary_of (ts @ us) (foldl summary_test s us)"
proof (induction us arbitrary: ts s)
  case Nil
  then show ?case by simp
next
  case (Cons u us)
  from Cons.IH [OF summary_of_step [OF Cons.prems, of u]] show ?case by simp
qed

lemma summary_of_test_summary: "summary_of (build_tests db self) (test_summary db self)"
proof -
  have "summary_of []
          \<lparr>summary_total = 0, summary_pass = 0, summary_fail = 0, summary_missing = 0,
           summary_failures = []\<rparr>"
    by (simp add: summary_of_def first_seen_def)
  from summary_of_foldl [OF this, of "build_tests db self"] show ?thesis
    by (simp add: test_summary_def foldl_runs build_tests_def)
qed

lemma tri_state_length:
  "length ts = length (filter (\<lambda>t. test_result t = Some True) ts)
             + length (filter (\<lambda>t. test_result t = Some False) ts)
             + length (filter (\<lambda>t. test_result t = None) ts)"
proof (induction ts)
  case Nil
  show ?case by simp
next
  case (Cons a ts)
  then show ?case by (cases "test_result a") auto
qed

text \<open>
  Claim C5. Over the tests of the runs of a build, \<open>total\<close> is the sum of \<open>pass\<close>,
  \<open>fail\<close> and \<open>missing\<close>; \<open>pass\<close> counts the results true, \<open>fail\<close> the results false and
  \<open>missing\<close> the null results, so a null result is never counted as a failure. The keys
  of \<open>failures\<close> are the environment slugs of the failed tests in the order of their first
  failure, and the list under a slug holds exactly the tests of that environment whose
  result is false, in the order of the iteration.
\<close>

theorem test_summary_classifies:
  "(let tests = build_tests db self; s = test_summary db self
    in summary_total s = summary_pass s + summary_fail s + summary_missing s
     \<and> summary_total s = int (length tests)
     \<and> summary_pass s = int (length (filter (\<lambda>t. test_result t = Some True) tests))
     \<and> summary_fail s = int (length (filter (\<lambda>t. test_result t = Some False) tests))
     \<and> summary_missing s = int (length (filter (\<lambda>t. test_result t = None) tests))
     \<and> map fst (summary_failures s) = first_seen (map test_env (filter failed tests))
     \<and> (\<forall>env. map_of (summary_failures s) env =
           (if env \<in> set (map test_env (filter failed tests))
            then Some (filter (\<lambda>t. failed t \<and> test_env t = env) tests) else None)))"
proof -
  have s: "summary_of (build_tests db self) (test_summary db self)"
    by (rule summary_of_test_summary)
  have "summary_total (test_summary db self) =
          summary_pass (test_summary db self) + summary_fail (test_summary db self)
          + summary_missing (test_summary db self)"
    using s tri_state_length [of "build_tests db self"] by (simp add: summary_of_def)
  with s show ?thesis
    by (simp add: summary_of_def Let_def)
qed

lemma summary_example_tests:
  "build_tests summary_db (example_build 1 10) =
     [example_test 1 summary_run1 ''foo'' (Some True),
      example_test 2 summary_run1 ''bar'' (Some False),
      example_test 4 summary_run1 ''baz'' None,
      example_test 5 summary_run1 ''qux'' (Some False)]"
  by (simp add: build_tests_def build_test_runs_def test_run_tests_def summary_db_def
      summary_run1_def example_run_def example_build_def example_test_def)

theorem test_summary_classifies_witness:
  "(let s = test_summary summary_db (example_build 1 10)
    in summary_total s = 4 \<and> summary_pass s = 1 \<and> summary_fail s = 2 \<and> summary_missing s = 1
     \<and> map fst (summary_failures s) = [''env'']
     \<and> map_of (summary_failures s) ''env'' =
         Some [example_test 2 summary_run1 ''bar'' (Some False),
               example_test 5 summary_run1 ''qux'' (Some False)])"
proof -
  let ?s = "test_summary summary_db (example_build 1 10)"
  let ?tests = "build_tests summary_db (example_build 1 10)"
  note c = test_summary_classifies [of summary_db "example_build 1 10", unfolded Let_def]
  have env: "map test_env (filter failed ?tests) = [''env'', ''env'']"
    unfolding summary_example_tests
    by (simp add: failed_def test_env_def example_test_def summary_run1_def example_run_def
        example_env_def)
  have bad: "filter (\<lambda>t. failed t \<and> test_env t = ''env'') ?tests =
               [example_test 2 summary_run1 ''bar'' (Some False),
                example_test 5 summary_run1 ''qux'' (Some False)]"
    unfolding summary_example_tests
    by (simp add: failed_def test_env_def example_test_def summary_run1_def example_run_def
        example_env_def)
  from c have "summary_total ?s = int (length ?tests)"
    and "summary_pass ?s = int (length (filter (\<lambda>t. test_result t = Some True) ?tests))"
    and "summary_fail ?s = int (length (filter (\<lambda>t. test_result t = Some False) ?tests))"
    and "summary_missing ?s = int (length (filter (\<lambda>t. test_result t = None) ?tests))"
    and "map fst (summary_failures ?s) = first_seen (map test_env (filter failed ?tests))"
    and "map_of (summary_failures ?s) ''env'' =
           (if ''env'' \<in> set (map test_env (filter failed ?tests))
            then Some (filter (\<lambda>t. failed t \<and> test_env t = ''env'') ?tests) else None)"
    by blast+
  then show ?thesis
    unfolding env bad
    unfolding summary_example_tests
    by (simp add: example_test_def first_seen_def Let_def)
qed

subsection \<open>Build.save\<close>

lemma re_sub_rc_Cons:
  "re_sub ''-rc'' ''~rc'' (c # cs) =
     (if c = CHR ''-'' \<and> take 2 cs = ''rc''
      then ''~rc'' @ re_sub ''-rc'' ''~rc'' (drop 2 cs)
      else c # re_sub ''-rc'' ''~rc'' cs)"
  by (simp add: numeral_2_eq_2)

lemma take2_rc: "take 2 cs = ''rc'' \<Longrightarrow> \<exists>ds. cs = ''rc'' @ ds"
  by (metis append_take_drop_id)

lemma length_re_sub_rc: "length (re_sub ''-rc'' ''~rc'' s) = length s"
proof (induction s rule: length_induct)
  case (1 s)
  show ?case
  proof (cases s)
    case Nil
    then show ?thesis by simp
  next
    case (Cons c cs)
    show ?thesis
    proof (cases "c = CHR ''-'' \<and> take 2 cs = ''rc''")
      case True
      then obtain ds where ds: "cs = ''rc'' @ ds" using take2_rc by blast
      have "length (re_sub ''-rc'' ''~rc'' ds) = length ds"
        using 1 Cons ds by simp
      with True Cons ds show ?thesis by simp
    next
      case False
      have "length (re_sub ''-rc'' ''~rc'' cs) = length cs"
        using 1 Cons by simp
      with False Cons show ?thesis by (simp only: re_sub_rc_Cons if_False length_Cons)
    qed
  qed
qed

lemma re_sub_rc_nth:
  "i < length s \<Longrightarrow>
     re_sub ''-rc'' ''~rc'' s ! i =
       (if take 3 (drop i s) = ''-rc'' then CHR ''~'' else s ! i)"
proof (induction s arbitrary: i rule: length_induct)
  case (1 s)
  show ?case
  proof (cases s)
    case Nil
    with 1 show ?thesis by simp
  next
    case (Cons c cs)
    show ?thesis
    proof (cases "c = CHR ''-'' \<and> take 2 cs = ''rc''")
      case True
      then obtain ds where ds: "cs = ''rc'' @ ds" using take2_rc by blast
      have s: "s = ''-rc'' @ ds" using Cons True ds by simp
      have r: "re_sub ''-rc'' ''~rc'' s = ''~rc'' @ re_sub ''-rc'' ''~rc'' ds"
        unfolding s by simp
      consider "i = 0" | "i = 1" | "i = 2" | "3 \<le> i" by linarith
      then show ?thesis
      proof cases
        case 1
        then show ?thesis unfolding r by (simp add: s)
      next
        case 2
        then show ?thesis unfolding r by (simp add: s)
      next
        case 3
        then show ?thesis unfolding r by (simp add: s numeral_2_eq_2)
      next
        case 4
        then obtain j where j: "i = 3 + j" using le_Suc_ex by blast
        have "j < length ds" using "1.prems" j s by simp
        moreover have "length ds < length s" using s by simp
        ultimately have "re_sub ''-rc'' ''~rc'' ds ! j =
            (if take 3 (drop j ds) = ''-rc'' then CHR ''~'' else ds ! j)"
          using "1.IH" by blast
        moreover have "drop (3 + j) s = drop j ds" and "s ! (3 + j) = ds ! j"
          and "(''~rc'' @ re_sub ''-rc'' ''~rc'' ds) ! (3 + j) = re_sub ''-rc'' ''~rc'' ds ! j"
          unfolding s by (simp_all add: numeral_3_eq_3)
        ultimately show ?thesis
          unfolding r j by simp
      qed
    next
      case False
      have r: "re_sub ''-rc'' ''~rc'' s = c # re_sub ''-rc'' ''~rc'' cs"
        using False Cons by (simp only: re_sub_rc_Cons if_False)
      show ?thesis
      proof (cases i)
        case 0
        have "take 3 s \<noteq> ''-rc''"
          using False Cons by (auto simp: numeral_3_eq_3 numeral_2_eq_2 split: list.splits)
        with 0 show ?thesis unfolding r by (simp add: Cons)
      next
        case (Suc j)
        have "j < length cs" using "1.prems" Suc Cons by simp
        then have "re_sub ''-rc'' ''~rc'' cs ! j =
            (if take 3 (drop j cs) = ''-rc'' then CHR ''~'' else cs ! j)"
          using "1.IH" Cons by simp
        with Suc show ?thesis unfolding r by (simp add: Cons)
      qed
    qed
  qed
qed

lemma rc_rewritten_re_sub: "rc_rewritten n (re_sub ''-rc'' ''~rc'' n)"
  by (simp add: rc_rewritten_def length_re_sub_rc re_sub_rc_nth)

text \<open>
  Claim C9. When a name is supplied and no version, \<open>save\<close> keeps the name and stores as
  version the name with \<^verbatim>\<open>-rc\<close> rewritten to \<^verbatim>\<open>~rc\<close>; when both are supplied, both are
  kept as given.
\<close>

theorem build_save_version:
  "(truthy (name self) \<and> \<not> truthy (version self) \<longrightarrow>
      name (Build_save now self) = name self
      \<and> (\<exists>n v. name self = Some n \<and> version (Build_save now self) = Some v
                \<and> v = re_sub ''-rc'' ''~rc'' n \<and> rc_rewritten n v))
   \<and> (truthy (name self) \<and> truthy (version self) \<longrightarrow>
      name (Build_save now self) = name self
      \<and> version (Build_save now self) = version self)"
proof (cases "name self")
  case None
  then show ?thesis by (simp add: truthy_def)
next
  case (Some n)
  then show ?thesis
    by (auto simp: Build_save_def truthy_def Let_def rc_rewritten_re_sub split: option.splits)
qed

text \<open>The name \<^verbatim>\<open>1.0-rc1\<close> alone gives the version \<^verbatim>\<open>1.0~rc1\<close>.\<close>

theorem build_save_version_witness:
  "version (Build_save 7 \<lparr>name = Some ''1.0-rc1'', version = None, datetime = None\<rparr>)
     = Some ''1.0~rc1''
   \<and> name (Build_save 7 \<lparr>name = Some ''1.0-rc1'', version = None, datetime = None\<rparr>)
     = Some ''1.0-rc1''
   \<and> name (Build_save 7 \<lparr>name = Some ''one'', version = Some ''1.0-rc1'', datetime = None\<rparr>)
     = Some ''one''
   \<and> version (Build_save 7 \<lparr>name = Some ''one'', version = Some ''1.0-rc1'', datetime = None\<rparr>)
     = Some ''1.0-rc1''"
  using build_save_version [of "\<lparr>name = Some ''1.0-rc1'', version = None, datetime = None\<rparr>" 7]
    build_save_version [of "\<lparr>name = Some ''one'', version = Some ''1.0-rc1'', datetime = None\<rparr>" 7]
  by (simp add: truthy_def)

subsection \<open>ProjectStatus.builds\<close>

lemma project_builds_sorted: "sorted (map build_datetime (project_builds db p))"
  by (simp add: project_builds_def)

lemma project_builds_mset:
  "mset (project_builds db p) = filter_mset (in_project p) (mset (db_builds db))"
  by (simp add: project_builds_def in_project_def [abs_def])

lemma filter_mset_filter_mset_window:
  "filter_mset P (filter_mset Q M) = filter_mset (\<lambda>x. Q x \<and> P x) M"
  by (induction M) auto

text \<open>
  Claim C6. On a checkpoint that has a build: without a previous checkpoint \<open>builds\<close> is
  all the builds of the project in ascending order of time; with a previous checkpoint
  (that has a build) it is exactly the builds of the project later than the previous
  checkpoint's build and not later than this checkpoint's build, in ascending order.
\<close>

theorem checkpoint_builds:
  assumes "ps_build self = Some b"
  shows "(ps_previous self = None \<longrightarrow>
           (\<exists>bs. ProjectStatus_builds db self = Inr bs
              \<and> sorted (map build_datetime bs)
              \<and> mset bs = filter_mset (in_project (build_project b)) (mset (db_builds db))))
       \<and> (\<forall>prev pb. ps_previous self = Some prev \<and> ps_build prev = Some pb \<longrightarrow>
           (\<exists>bs. ProjectStatus_builds db self = Inr bs
              \<and> sorted (map build_datetime bs)
              \<and> mset bs =
                  filter_mset
                    (\<lambda>x. in_project (build_project b) x
                         \<and> build_datetime pb < build_datetime x
                         \<and> build_datetime x \<le> build_datetime b)
                    (mset (db_builds db))))"
proof (intro conjI allI impI)
  assume "ps_previous self = None"
  with assms show "\<exists>bs. ProjectStatus_builds db self = Inr bs
      \<and> sorted (map build_datetime bs)
      \<and> mset bs = filter_mset (in_project (build_project b)) (mset (db_builds db))"
    by (simp add: ProjectStatus_builds_def project_builds_sorted project_builds_mset)
next
  fix prev pb
  assume "ps_previous self = Some prev \<and> ps_build prev = Some pb"
  with assms show "\<exists>bs. ProjectStatus_builds db self = Inr bs
      \<and> sorted (map build_datetime bs)
      \<and> mset bs =
          filter_mset
            (\<lambda>x. in_project (build_project b) x
                 \<and> build_datetime pb < build_datetime x
                 \<and> build_datetime x \<le> build_datetime b)
            (mset (db_builds db))"
    by (simp add: ProjectStatus_builds_def project_builds_mset filter_mset_filter_mset_window)
qed

text \<open>
  The example of the claim: previous checkpoint at build 1, current at build 3, build 2
  between them.
\<close>

lemma checkpoint3_builds:
  "ProjectStatus_builds checkpoint_db checkpoint3 = Inr [example_build 2 20, example_build 3 30]"
  by (simp add: ProjectStatus_builds_def checkpoint3_def checkpoint1_def checkpoint_db_def
      project_builds_def example_build_def example_project_def)

lemma checkpoint3_window:
  "filter (\<lambda>x. in_project (build_project (example_build 3 30)) x
              \<and> build_datetime (example_build 1 10) < build_datetime x
              \<and> build_datetime x \<le> build_datetime (example_build 3 30))
     (db_builds checkpoint_db) = [example_build 3 30, example_build 2 20]"
  by (simp add: checkpoint_db_def in_project_def example_build_def example_project_def)

theorem checkpoint_builds_witness:
  "ps_build checkpoint3 = Some (example_build 3 30)
   \<and> ps_previous checkpoint3 = Some checkpoint1
   \<and> ps_build checkpoint1 = Some (example_build 1 10)
   \<and> ProjectStatus_builds checkpoint_db checkpoint3 = Inr [example_build 2 20, example_build 3 30]
   \<and> (\<exists>bs. ProjectStatus_builds checkpoint_db checkpoint3 = Inr bs
          \<and> sorted (map build_datetime bs)
          \<and> mset bs = mset [example_build 3 30, example_build 2 20])"
proof -
  have b3: "ps_build checkpoint3 = Some (example_build 3 30)"
    and p3: "ps_previous checkpoint3 = Some checkpoint1"
    and b1: "ps_build checkpoint1 = Some (example_build 1 10)"
    by (simp_all add: checkpoint3_def checkpoint1_def)
  from checkpoint_builds [OF b3, of checkpoint_db] p3 b1
  have "\<exists>bs. ProjectStatus_builds checkpoint_db checkpoint3 = Inr bs
          \<and> sorted (map build_datetime bs)
          \<and> mset bs =
              filter_mset
                (\<lambda>x. in_project (build_project (example_build 3 30)) x
                     \<and> build_datetime (example_build 1 10) < build_datetime x
                     \<and> build_datetime x \<le> build_datetime (example_build 3 30))
                (mset (db_builds checkpoint_db))"
    by blast
  then have "\<exists>bs. ProjectStatus_builds checkpoint_db checkpoint3 = Inr bs
          \<and> sorted (map build_datetime bs)
          \<and> mset bs = mset [example_build 3 30, example_build 2 20]"
    by (simp only: mset_filter [symmetric] checkpoint3_window)
  with b3 p3 b1 checkpoint3_builds show ?thesis by blast
qed

subsection \<open>ProjectStatus.create\<close>

text \<open>
  \<open>queryset_last\<close> returns a row of the query with the greatest key, and nothing only on
  an empty query.
\<close>

lemma hd_sorted_min:
  assumes "sorted (map f ys)" and "y \<in> set ys"
  shows "f (hd ys) \<le> f y"
  using assms by (cases ys) auto

lemma queryset_last_None: "queryset_last key rows = None \<longleftrightarrow> rows = []"
proof -
  have "sort_key (\<lambda>r. - key r) rows = [] \<longleftrightarrow> rows = []"
    by (metis length_sort length_0_conv)
  then show ?thesis
    by (cases "sort_key (\<lambda>r. - key r) rows") (auto simp: queryset_last_def)
qed

lemma queryset_last_Some:
  assumes "queryset_last key rows = Some r"
  shows "r \<in> set rows \<and> (\<forall>x \<in> set rows. key x \<le> key r)"
proof -
  let ?ys = "sort_key (\<lambda>r. - key r) rows"
  from assms obtain rest where ys: "?ys = r # rest"
    by (auto simp: queryset_last_def split: list.splits)
  then have "r \<in> set ?ys" by simp
  then have mem: "r \<in> set rows" by simp
  have srt: "sorted (map (\<lambda>r. - key r) ?ys)" by simp
  have "\<forall>x \<in> set rows. key x \<le> key r"
  proof
    fix x assume "x \<in> set rows"
    then have "x \<in> set ?ys" by simp
    from hd_sorted_min [OF srt this] show "key x \<le> key r" by (simp add: ys)
  qed
  with mem show ?thesis by blast
qed

lemma queryset_last_snoc:
  assumes "\<forall>x \<in> set xs. key x < key c"
  shows "queryset_last key (xs @ [c]) = Some c"
proof -
  have "queryset_last key (xs @ [c]) \<noteq> None"
    by (simp add: queryset_last_None)
  then obtain r where r: "queryset_last key (xs @ [c]) = Some r" by blast
  from queryset_last_Some [OF r] have "r \<in> set xs \<union> {c}" and "key c \<le> key r"
    by auto
  with assms have "r = c" by fastforce
  with r show ?thesis by simp
qed

lemma fold_max_ge: "(x :: nat) \<in> set xs \<Longrightarrow> x \<le> fold max xs a"
proof -
  assume "x \<in> set xs"
  then have "x \<le> Max (set (a # xs))" by simp
  then show ?thesis by (simp only: Max.set_eq_fold)
qed

lemma next_pk_fresh: "c \<in> set rows \<Longrightarrow> ps_id c < next_pk rows"
  using fold_max_ge [of "ps_id c" "map ps_id rows" 0] by (simp add: next_pk_def less_Suc_eq_le)

lemma candidate_build_datetime:
  assumes "is_datetime (now - build_completion_threshold project * 60000000)"
  shows "candidate_build now db project =
           Inr (queryset_last build_datetime
                  (filter (\<lambda>b. build_datetime b < now - build_completion_threshold project * 60000000)
                     (project_builds db project)))"
  using assms
  by (simp add: candidate_build_def datetime_sub_def minutes_def datetime_max_def is_datetime_def
      Let_def)

text \<open>
  When \<open>now\<close> minus the threshold is not a time a \<^verbatim>\<open>datetime\<close> can hold (a threshold of
  some two thousand years), the subtraction raises and \<^verbatim>\<open>create\<close> with it.
\<close>

lemma candidate_build_overflow:
  assumes "\<not> is_datetime (now - build_completion_threshold project * 60000000)"
  shows "candidate_build now db project = Inl OverflowError"
    and "ProjectStatus_create now db project = Inl OverflowError"
  using assms
  by (auto simp: ProjectStatus_create_def candidate_build_def datetime_sub_def minutes_def
      datetime_max_def is_datetime_def Let_def)

lemma candidate_build_Inr:
  "candidate_build now db project = Inr cand \<Longrightarrow>
     is_datetime (now - build_completion_threshold project * 60000000)"
  using candidate_build_overflow(1) [of now project db] by (cases "is_datetime (now - build_completion_threshold project * 60000000)") auto

lemma completed_rows:
  "set (filter (\<lambda>b. build_datetime b < now - build_completion_threshold project * 60000000)
          (project_builds db project))
     = {x \<in> set (db_builds db). completed now project x}"
  by (auto simp: project_builds_def completed_def in_project_def)

lemma candidate_build_pinned:
  assumes "candidate_build now db project = Inr cand"
  shows "case cand of
           None \<Rightarrow> \<not> (\<exists>x \<in> set (db_builds db). completed now project x)
         | Some b \<Rightarrow> is_candidate now db project b"
proof -
  let ?rows = "filter (\<lambda>b. build_datetime b < now - build_completion_threshold project * 60000000)
                 (project_builds db project)"
  have c: "cand = queryset_last build_datetime ?rows"
    using assms candidate_build_datetime [OF candidate_build_Inr [OF assms], of db] by simp
  show ?thesis
  proof (cases cand)
    case None
    then have "?rows = []" using c by (simp add: queryset_last_None)
    then have "{x \<in> set (db_builds db). completed now project x} = {}"
      unfolding completed_rows [symmetric] by simp
    with None show ?thesis by auto
  next
    case (Some b)
    then have "queryset_last build_datetime ?rows = Some b" using c by simp
    from queryset_last_Some [OF this] Some show ?thesis
      unfolding completed_rows by (simp add: is_candidate_def)
  qed
qed

lemma checkpoint_rows:
  "set (project_checkpoints db project)
     = {c \<in> set (db_project_statuses db). checkpoint_of project c}"
  by (auto simp: project_checkpoints_def checkpoint_of_def in_project_def split: option.splits)

lemma previous_checkpoint_pinned:
  "case previous_checkpoint db project of
     None \<Rightarrow> \<not> (\<exists>c \<in> set (db_project_statuses db). checkpoint_of project c)
   | Some p \<Rightarrow> is_latest_checkpoint db project p"
proof (cases "previous_checkpoint db project")
  case None
  then have "project_checkpoints db project = []"
    by (simp add: previous_checkpoint_def queryset_last_None)
  then have "{c \<in> set (db_project_statuses db). checkpoint_of project c} = {}"
    unfolding checkpoint_rows [symmetric] by simp
  with None show ?thesis by auto
next
  case (Some p)
  then have "queryset_last (\<lambda>c. int (ps_id c)) (project_checkpoints db project) = Some p"
    by (simp add: previous_checkpoint_def)
  from queryset_last_Some [OF this] Some show ?thesis
    unfolding checkpoint_rows by (simp add: is_latest_checkpoint_def)
qed

lemma project_builds_statuses:
  "project_builds (db\<lparr>db_project_statuses := rows\<rparr>) project = project_builds db project"
  by (simp add: project_builds_def)

lemma candidate_build_statuses:
  "candidate_build now (db\<lparr>db_project_statuses := rows\<rparr>) project = candidate_build now db project"
  by (simp add: candidate_build_def project_builds_statuses Let_def split: sum.splits)

lemma previous_has_build:
  assumes "previous_checkpoint db project = Some p"
  shows "\<exists>pb. ps_build p = Some pb \<and> in_project project pb"
  using previous_checkpoint_pinned [of db project] assms
  by (auto simp: is_latest_checkpoint_def checkpoint_of_def split: option.splits)

lemma previous_differs:
  assumes "previous_checkpoint db project = Some p"
  shows "build_differs p b \<longleftrightarrow> (\<exists>pb. ps_build p = Some pb \<and> build_id pb \<noteq> build_id b)"
  using previous_has_build [OF assms] by (auto simp: build_differs_def)

lemma previous_checkpoint_snoc:
  assumes "in_project project b"
  shows "previous_checkpoint
           (db\<lparr>db_project_statuses :=
                 db_project_statuses db @ [ProjectStatus (next_pk (db_project_statuses db)) (Some b) p]\<rparr>)
           project
         = Some (ProjectStatus (next_pk (db_project_statuses db)) (Some b) p)"
proof -
  let ?c = "ProjectStatus (next_pk (db_project_statuses db)) (Some b) p"
  have "\<forall>x \<in> set (project_checkpoints db project). int (ps_id x) < int (ps_id ?c)"
    by (simp add: project_checkpoints_def next_pk_fresh)
  from queryset_last_snoc [OF this] assms show ?thesis
    by (simp add: previous_checkpoint_def project_checkpoints_def in_project_def)
qed

lemma create_no_candidate:
  assumes "candidate_build now db project = Inr None"
  shows "ProjectStatus_create now db project = Inr (db, None)"
  using assms by (simp add: ProjectStatus_create_def)

lemma create_same_build:
  assumes "candidate_build now db project = Inr (Some b)"
    and "previous_checkpoint db project = Some p"
    and "ps_build p = Some pb" and "build_id pb = build_id b"
  shows "ProjectStatus_create now db project = Inr (db, None)"
  using assms by (simp add: ProjectStatus_create_def build_differs_def)

lemma create_advances:
  assumes "candidate_build now db project = Inr (Some b)"
    and "previous_checkpoint db project = None
         \<or> (\<exists>p pb. previous_checkpoint db project = Some p \<and> ps_build p = Some pb
                  \<and> build_id pb \<noteq> build_id b)"
  shows "ProjectStatus_create now db project =
           Inr (db\<lparr>db_project_statuses :=
                     db_project_statuses db
                     @ [ProjectStatus (next_pk (db_project_statuses db)) (Some b)
                          (previous_checkpoint db project)]\<rparr>,
                Some (ProjectStatus (next_pk (db_project_statuses db)) (Some b)
                        (previous_checkpoint db project)))"
  using assms by (auto simp: ProjectStatus_create_def build_differs_def Let_def)

text \<open>
  Claim C1, for a project whose threshold leaves \<open>now\<close> minus the threshold a time that a
  \<^verbatim>\<open>datetime\<close> can hold. \<^verbatim>\<open>create\<close> returns. The candidate it considers is a build of the
  project older than \<open>now\<close> minus the threshold with the latest time among those, and there
  is none exactly when the project has no such build. The previous checkpoint it considers
  is the checkpoint of the project with the greatest key, and there is none exactly when
  the project has no checkpoint. \<^verbatim>\<open>create\<close> returns a checkpoint if and only if there is a
  candidate and either there is no previous checkpoint or the build of the previous
  checkpoint has another key than the candidate. The checkpoint returned holds the
  candidate and the previous checkpoint, is the one row added to the table, has a key
  above every other and is then the latest checkpoint of the project. Otherwise
  \<^verbatim>\<open>create\<close> returns nothing and the tables are unchanged. A second call that sees the
  same candidate returns nothing and changes nothing, so two calls in succession make at
  most one checkpoint.
\<close>

theorem create_checkpoint:
  assumes "is_datetime (now - build_completion_threshold project * 60000000)"
  shows "\<exists>cand prev db' r.
      candidate_build now db project = Inr cand
    \<and> previous_checkpoint db project = prev
    \<and> ProjectStatus_create now db project = Inr (db', r)
    \<and> (case cand of
         None \<Rightarrow> \<not> (\<exists>x \<in> set (db_builds db). completed now project x)
       | Some b \<Rightarrow> is_candidate now db project b)
    \<and> (case prev of
         None \<Rightarrow> \<not> (\<exists>c \<in> set (db_project_statuses db). checkpoint_of project c)
       | Some p \<Rightarrow> is_latest_checkpoint db project p)
    \<and> ((\<exists>c. r = Some c) \<longleftrightarrow>
         (\<exists>b. cand = Some b
              \<and> (prev = None
                 \<or> (\<exists>p pb. prev = Some p \<and> ps_build p = Some pb
                          \<and> build_id pb \<noteq> build_id b))))
    \<and> (\<forall>c. r = Some c \<longrightarrow>
           ps_build c = cand \<and> ps_previous c = prev
           \<and> db' = db\<lparr>db_project_statuses := db_project_statuses db @ [c]\<rparr>
           \<and> (\<forall>x \<in> set (db_project_statuses db). ps_id x < ps_id c)
           \<and> is_latest_checkpoint db' project c)
    \<and> (r = None \<longrightarrow> db' = db)
    \<and> (\<forall>now'. candidate_build now' db' project = Inr cand \<longrightarrow>
           ProjectStatus_create now' db' project = Inr (db', None))"
proof -
  obtain cand where cand: "candidate_build now db project = Inr cand"
    using candidate_build_datetime [OF assms] by blast
  define prev where "prev = previous_checkpoint db project"
  have prev: "previous_checkpoint db project = prev" by (simp add: prev_def)
  note pin_c = candidate_build_pinned [OF cand]
  have pin_p: "case prev of
       None \<Rightarrow> \<not> (\<exists>c \<in> set (db_project_statuses db). checkpoint_of project c)
     | Some p \<Rightarrow> is_latest_checkpoint db project p"
    unfolding prev_def by (rule previous_checkpoint_pinned)
  let ?adv = "\<exists>b. cand = Some b
              \<and> (prev = None
                 \<or> (\<exists>p pb. prev = Some p \<and> ps_build p = Some pb
                          \<and> build_id pb \<noteq> build_id b))"
  show ?thesis
  proof (cases ?adv)
    case False
    have same: "ProjectStatus_create t db project = Inr (db, None)"
      if "candidate_build t db project = Inr cand" for t
    proof (cases cand)
      case None
      with that have "candidate_build t db project = Inr None" by simp
      then show ?thesis by (rule create_no_candidate)
    next
      case (Some b)
      obtain p where p: "prev = Some p"
      proof (cases prev)
        case None
        with Some have ?adv by blast
        with False show ?thesis by contradiction
      next
        case (Some p)
        then show ?thesis by (rule that)
      qed
      then obtain pb where pb: "ps_build p = Some pb"
        using previous_has_build [of db project p] prev by auto
      have eq: "build_id pb = build_id b"
      proof (rule ccontr)
        assume "build_id pb \<noteq> build_id b"
        with Some p pb have ?adv by blast
        with False show False by contradiction
      qed
      from that Some have c: "candidate_build t db project = Inr (Some b)" by simp
      from prev p have q: "previous_checkpoint db project = Some p" by simp
      from c q pb eq show ?thesis by (rule create_same_build)
    qed
    have first: "ProjectStatus_create now db project = Inr (db, None)"
      using same [OF cand] .
    have iff: "(\<exists>c. (None :: ProjectStatus option) = Some c) \<longleftrightarrow> ?adv"
      using False by blast
    have made: "\<forall>c. (None :: ProjectStatus option) = Some c \<longrightarrow>
           ps_build c = cand \<and> ps_previous c = prev
           \<and> db = db\<lparr>db_project_statuses := db_project_statuses db @ [c]\<rparr>
           \<and> (\<forall>x \<in> set (db_project_statuses db). ps_id x < ps_id c)
           \<and> is_latest_checkpoint db project c"
      by simp
    have unchanged: "(None :: ProjectStatus option) = None \<longrightarrow> db = db" by simp
    have again: "\<forall>now'. candidate_build now' db project = Inr cand \<longrightarrow>
           ProjectStatus_create now' db project = Inr (db, None)"
      using same by blast
    show ?thesis
      apply (rule exI [of _ cand])
      apply (rule exI [of _ prev])
      apply (rule exI [of _ db])
      apply (rule exI [of _ None])
      apply (intro conjI)
              apply (rule cand)
             apply (rule prev)
            apply (rule first)
           apply (rule pin_c)
          apply (rule pin_p)
         apply (rule iff)
        apply (rule made)
       apply (rule unchanged)
      apply (rule again)
      done
  next
    case True
    then obtain b where b: "cand = Some b" by blast
    define c where "c = ProjectStatus (next_pk (db_project_statuses db)) (Some b) prev"
    define db' where "db' = db\<lparr>db_project_statuses := db_project_statuses db @ [c]\<rparr>"
    have cb: "candidate_build now db project = Inr (Some b)"
      using cand b by simp
    have "previous_checkpoint db project = None
         \<or> (\<exists>p pb. previous_checkpoint db project = Some p \<and> ps_build p = Some pb
                  \<and> build_id pb \<noteq> build_id b)"
      using True b unfolding prev by blast
    from create_advances [OF cb this]
    have first: "ProjectStatus_create now db project = Inr (db', Some c)"
      unfolding prev c_def [symmetric] db'_def [symmetric] .
    have inp: "in_project project b"
      using pin_c b by (simp add: is_candidate_def completed_def)
    have fresh: "\<forall>x \<in> set (db_project_statuses db). ps_id x < ps_id c"
      by (simp add: c_def next_pk_fresh)
    have "checkpoint_of project c"
      using inp by (simp add: checkpoint_of_def c_def)
    moreover have "\<forall>x \<in> set (db_project_statuses db'). ps_id x \<le> ps_id c"
      using fresh by (auto simp: db'_def less_imp_le)
    moreover have "c \<in> set (db_project_statuses db')"
      by (simp add: db'_def)
    ultimately have latest: "is_latest_checkpoint db' project c"
      by (simp add: is_latest_checkpoint_def)
    have prev': "previous_checkpoint db' project = Some c"
      unfolding db'_def c_def by (rule previous_checkpoint_snoc [OF inp])
    have cbuild: "ps_build c = Some b" by (simp add: c_def)
    have second: "ProjectStatus_create t db' project = Inr (db', None)"
      if "candidate_build t db' project = Inr cand" for t
    proof -
      from that b have "candidate_build t db' project = Inr (Some b)" by simp
      from this prev' cbuild refl show ?thesis by (rule create_same_build)
    qed
    have fields: "ps_build c = cand" "ps_previous c = prev"
      by (simp_all add: c_def b)
    have iff: "(\<exists>c'. Some c = Some c') \<longleftrightarrow> ?adv"
      using True by blast
    have made: "\<forall>c'. Some c = Some c' \<longrightarrow>
           ps_build c' = cand \<and> ps_previous c' = prev
           \<and> db' = db\<lparr>db_project_statuses := db_project_statuses db @ [c']\<rparr>
           \<and> (\<forall>x \<in> set (db_project_statuses db). ps_id x < ps_id c')
           \<and> is_latest_checkpoint db' project c'"
      using fields fresh latest by (simp add: db'_def)
    have unchanged: "Some c = None \<longrightarrow> db' = db" by simp
    have again: "\<forall>now'. candidate_build now' db' project = Inr cand \<longrightarrow>
           ProjectStatus_create now' db' project = Inr (db', None)"
      using second by blast
    show ?thesis
      apply (rule exI [of _ cand])
      apply (rule exI [of _ prev])
      apply (rule exI [of _ db'])
      apply (rule exI [of _ "Some c"])
      apply (intro conjI)
              apply (rule cand)
             apply (rule prev)
            apply (rule first)
           apply (rule pin_c)
          apply (rule pin_p)
         apply (rule iff)
        apply (rule made)
       apply (rule unchanged)
      apply (rule again)
      done
  qed
qed

text \<open>
  Two calls a minute apart on a project with a threshold of 120 minutes, a build 200
  minutes old and a build 10 minutes old: the first call makes the only checkpoint, on
  the older build.
\<close>

lemma create_db_candidate:
  "candidate_build 60000000000 create_db example_project
     = Inr (Some (example_build 1 48000000000))"
  "candidate_build 60060000000 create_db example_project
     = Inr (Some (example_build 1 48000000000))"
  by (simp_all add: candidate_build_def datetime_sub_def datetime_max_def minutes_def
      project_builds_def queryset_last_def create_db_def example_build_def example_project_def)

lemma create_db_previous: "previous_checkpoint create_db example_project = None"
  by (simp add: previous_checkpoint_def project_checkpoints_def create_db_def queryset_last_def)

theorem create_checkpoint_witness:
  "is_datetime (60000000000 - build_completion_threshold example_project * 60000000)
   \<and> (\<exists>c. ProjectStatus_create 60000000000 create_db example_project
            = Inr (create_db\<lparr>db_project_statuses := [c]\<rparr>, Some c)
          \<and> ps_build c = Some (example_build 1 48000000000)
          \<and> ps_previous c = None
          \<and> ProjectStatus_create 60060000000 (create_db\<lparr>db_project_statuses := [c]\<rparr>)
               example_project
             = Inr (create_db\<lparr>db_project_statuses := [c]\<rparr>, None))"
proof -
  have ok: "is_datetime (60000000000 - build_completion_threshold example_project * 60000000)"
    by (simp add: is_datetime_def example_project_def)
  from create_checkpoint [OF ok, of create_db]
  obtain cand prev db' r where
    cand: "candidate_build 60000000000 create_db example_project = Inr cand"
    and prev: "previous_checkpoint create_db example_project = prev"
    and first: "ProjectStatus_create 60000000000 create_db example_project = Inr (db', r)"
    and iff: "(\<exists>c. r = Some c) \<longleftrightarrow>
         (\<exists>b. cand = Some b
              \<and> (prev = None
                 \<or> (\<exists>p pb. prev = Some p \<and> ps_build p = Some pb
                          \<and> build_id pb \<noteq> build_id b)))"
    and made: "\<forall>c. r = Some c \<longrightarrow>
           ps_build c = cand \<and> ps_previous c = prev
           \<and> db' = create_db\<lparr>db_project_statuses := db_project_statuses create_db @ [c]\<rparr>
           \<and> (\<forall>x \<in> set (db_project_statuses create_db). ps_id x < ps_id c)
           \<and> is_latest_checkpoint db' example_project c"
    and again: "\<forall>now'. candidate_build now' db' example_project = Inr cand \<longrightarrow>
           ProjectStatus_create now' db' example_project = Inr (db', None)"
    by blast
  have c1: "cand = Some (example_build 1 48000000000)"
    using cand unfolding create_db_candidate by simp
  have p1: "prev = None"
    using prev unfolding create_db_previous by simp
  from iff c1 p1 obtain c where c: "r = Some c" by blast
  have empty: "db_project_statuses create_db = []"
    by (simp add: create_db_def)
  from made c have "ps_build c = cand" and "ps_previous c = prev"
    and "db' = create_db\<lparr>db_project_statuses := db_project_statuses create_db @ [c]\<rparr>"
    by blast+
  then have b: "ps_build c = Some (example_build 1 48000000000)"
    and p: "ps_previous c = None"
    and d: "db' = create_db\<lparr>db_project_statuses := [c]\<rparr>"
    unfolding c1 p1 empty by simp_all
  have "candidate_build 60060000000 db' example_project = Inr cand"
    unfolding d c1 candidate_build_statuses create_db_candidate ..
  with again have "ProjectStatus_create 60060000000 db' example_project = Inr (db', None)"
    by blast
  with first ok b p show ?thesis
    unfolding d c by blast
qed

text \<open>
  Two completed builds of the same time: \<^verbatim>\<open>last()\<close> reads the query in descending order
  of time and takes its first row, the first of the two in the table.
\<close>

lemma tie_db_candidate:
  "candidate_build 60000000000 tie_db example_project
     = Inr (Some (example_build 1 48000000000))"
  by (simp add: candidate_build_def datetime_sub_def datetime_max_def minutes_def
      project_builds_def queryset_last_def tie_db_def example_build_def example_project_def)

subsection \<open>TestRun.metadata and Build.metadata\<close>

text \<open>
  \<open>dict_intersection\<close> keeps the keys on which both dictionaries agree, so it does not
  depend on the order of its arguments.
\<close>

lemma dict_intersection_lookup:
  "Mapping.lookup (dict_intersection d1 d2) k =
     (if Mapping.lookup d1 k = Mapping.lookup d2 k then Mapping.lookup d1 k else None)"
  by (auto simp: dict_intersection_def Mapping.lookup_filter split: option.splits)

lemma dict_intersection_commute: "dict_intersection d1 d2 = dict_intersection d2 d1"
  by (rule mapping_eqI) (simp add: dict_intersection_lookup)

text \<open>
  Claim C8, as amended. A test run whose \<open>metadata_file\<close> is null or empty has the empty
  mapping as metadata. When the file is set, the metadata is whatever \<^verbatim>\<open>json.loads\<close>
  makes of it: in particular an error of the decoder on malformed text is the outcome
  of the read, since \<open>metadata\<close> has no handler for it.
\<close>

theorem metadata_read:
  "(\<not> truthy (metadata_file self) \<longrightarrow> TestRun_metadata loads self = Inr Mapping.empty)
   \<and> (\<forall>text. metadata_file self = Some text \<and> text \<noteq> [] \<longrightarrow>
         TestRun_metadata loads self = loads text)
   \<and> (\<forall>text e. metadata_file self = Some text \<and> text \<noteq> [] \<and> loads text = Inl e \<longrightarrow>
         TestRun_metadata loads self = Inl e)"
  by (auto simp: TestRun_metadata_def truthy_def)

theorem metadata_read_witness:
  \<open>TestRun_metadata example_loads (metadata_run 1 None) = Inr Mapping.empty
   \<and> TestRun_metadata example_loads (metadata_run 1 (Some [])) = Inr Mapping.empty
   \<and> TestRun_metadata example_loads (metadata_run 1 (Some ''{"a": "1"}''))
       = Inr (Mapping.update ''a'' ''1'' Mapping.empty)
   \<and> TestRun_metadata example_loads (metadata_run 1 (Some ''{'')) = Inl JSONDecodeError\<close>
  using metadata_read [of "metadata_run 1 None" example_loads]
    metadata_read [of "metadata_run 1 (Some [])" example_loads]
    metadata_read [of \<open>metadata_run 1 (Some ''{"a": "1"}'')\<close> example_loads]
    metadata_read [of "metadata_run 1 (Some ''{'')" example_loads]
  by (simp add: metadata_run_def example_run_def truthy_def example_loads_def)

text \<open>
  Claim C8 as stated fails: on the malformed text \<^verbatim>\<open>{\<close> the read raises the error of the
  decoder, and does not yield the empty mapping.
\<close>

theorem metadata_malformed_counterexample:
  "metadata_file (metadata_run 1 (Some ''{'')) = Some ''{''
   \<and> example_loads ''{'' = Inl JSONDecodeError
   \<and> TestRun_metadata example_loads (metadata_run 1 (Some ''{'')) = Inl JSONDecodeError
   \<and> TestRun_metadata example_loads (metadata_run 1 (Some ''{'')) \<noteq> Inr Mapping.empty"
  by (simp add: TestRun_metadata_def example_loads_def metadata_run_def example_run_def
      truthy_def)

text \<open>
  Claim C2 at a failing input. Three runs whose metadata have no pair in common: the
  second run empties the accumulator, the test for an empty accumulator then takes the
  third run's metadata as a fresh start, and the result is the metadata of whichever run
  comes last. Reversing the order of the runs changes the result.
\<close>

theorem metadata_order_dependent:
  \<open>Build_metadata example_loads
     (metadata_db [metadata_run 1 (Some ''{"a": "1"}''), metadata_run 2 (Some ''{"b": "2"}''),
                   metadata_run 3 (Some ''{"c": "3"}'')]) (example_build 1 10)
     = Inr (Mapping.update ''c'' ''3'' Mapping.empty)
   \<and> Build_metadata example_loads
     (metadata_db [metadata_run 3 (Some ''{"c": "3"}''), metadata_run 2 (Some ''{"b": "2"}''),
                   metadata_run 1 (Some ''{"a": "1"}'')]) (example_build 1 10)
     = Inr (Mapping.update ''a'' ''1'' Mapping.empty)
   \<and> Mapping.update ''c'' ''3'' Mapping.empty
       \<noteq> (Mapping.update ''a'' ''1'' Mapping.empty :: string dict)\<close>
  by code_simp

text \<open>
  Claim C3 at a failing input. A run without metadata followed by a run with the pair
  \<^verbatim>\<open>a: 1\<close>: the build's metadata contains the pair although the first run's metadata
  does not. With the runs in the other order the result is the intersection, empty.
\<close>

theorem metadata_not_intersection:
  \<open>Build_metadata example_loads
     (metadata_db [metadata_run 1 None, metadata_run 2 (Some ''{"a": "1"}'')])
     (example_build 1 10)
     = Inr (Mapping.update ''a'' ''1'' Mapping.empty)
   \<and> TestRun_metadata example_loads (metadata_run 1 None) = Inr Mapping.empty
   \<and> Mapping.lookup (Mapping.empty :: string dict) ''a'' = None
   \<and> Build_metadata example_loads
     (metadata_db [metadata_run 2 (Some ''{"a": "1"}''), metadata_run 1 None])
     (example_build 1 10)
     = Inr Mapping.empty\<close>
  by code_simp

end
